theory Spec2Isabelle
  imports Main
begin

section \<open>Login throttling of the authentication controller\<close>

text \<open>
  The embedding follows \<^verbatim>\<open>src/api/components/authentication/authentication-controller.js\<close>.
  The controller keeps a module-level object \<^verbatim>\<open>failedLoginAttempts\<close>, reads it, awaits
  \<^verbatim>\<open>authenticationServices.checkLoginCredentials\<close>, writes the object and, on the
  success path, registers a \<^verbatim>\<open>setTimeout\<close> callback. Each of these effects is a field
  of the record \<open>world\<close>, passed through \<open>login\<close> and returned updated.

  One call of \<open>login\<close> is one uninterrupted step: no other request and no timer runs
  between its read of \<^verbatim>\<open>failedLoginAttempts[email]\<close> and its write. Request bodies are
  validated upstream, so \<open>email\<close> is an ordinary string key that the object does not
  inherit from its prototype.
\<close>

subsection \<open>Values\<close>

datatype js_value =
    Null
  | Undefined
  | Bool bool
  | Num int
  | Str string
  | Obj "(string \<times> js_value) list"

text \<open>What \<^verbatim>\<open>!loginSuccess\<close> tests: the value is falsy or not.\<close>

fun truthy :: "js_value \<Rightarrow> bool" where
  "truthy Null = False"
| "truthy Undefined = False"
| "truthy (Bool b) = b"
| "truthy (Num n) = (n \<noteq> 0)"
| "truthy (Str s) = (s \<noteq> [])"
| "truthy (Obj fields) = True"

datatype error_type = FORBIDDEN | INVALID_CREDENTIALS

text \<open>
  An error handed to \<^verbatim>\<open>next\<close>: built by \<^verbatim>\<open>errorResponder(type, message)\<close>, or thrown by
  the awaited service call and caught by the \<^verbatim>\<open>catch\<close> block.
\<close>

datatype error = errorResponder error_type string | Thrown string

text \<open>The awaited promise of \<^verbatim>\<open>checkLoginCredentials\<close> resolves to a value or rejects.\<close>

datatype outcome = Returns js_value | Throws string

text \<open>\<^verbatim>\<open>response.status(s).json(body)\<close>.\<close>

datatype response = Json nat js_value

subsection \<open>State\<close>

text \<open>
  \<open>failedLoginAttempts\<close> is the object of the source. \<open>timers\<close> holds the pending
  \<^verbatim>\<open>setTimeout\<close> callbacks, each as its due time in milliseconds and the \<open>email\<close> its
  closure captured, in the order they were registered. \<open>clock\<close> is the current time in
  milliseconds. \<open>calls\<close> records every invocation of \<^verbatim>\<open>checkLoginCredentials\<close> and
  \<open>writes\<close> every assignment to \<^verbatim>\<open>failedLoginAttempts[...]\<close>, oldest first.
\<close>

record world =
  failedLoginAttempts :: "string \<rightharpoonup> int"
  timers :: "(nat \<times> string) list"
  clock :: nat
  calls :: "(string \<times> string) list"
  writes :: "(string \<times> int) list"

definition emptyWorld :: world where
  "emptyWorld = \<lparr>failedLoginAttempts = Map.empty, timers = [], clock = 0, calls = [], writes = []\<rparr>"

definition loginAttemptResetTime :: nat where
  "loginAttemptResetTime = 30 * 60 * 1000"

text \<open>\<^verbatim>\<open>failedLoginAttempts[email] || 0\<close>: a missing key and a stored 0 both read as 0.\<close>

definition readAttempts :: "world \<Rightarrow> string \<Rightarrow> int" where
  "readAttempts w email =
     (case failedLoginAttempts w email of
        None \<Rightarrow> 0
      | Some n \<Rightarrow> if n \<noteq> 0 then n else 0)"

text \<open>\<^verbatim>\<open>failedLoginAttempts[email] = v\<close>.\<close>

definition assign :: "world \<Rightarrow> string \<Rightarrow> int \<Rightarrow> world" where
  "assign w email v =
     w\<lparr>failedLoginAttempts := (failedLoginAttempts w)(email \<mapsto> v),
       writes := writes w @ [(email, v)]\<rparr>"

text \<open>\<^verbatim>\<open>setTimeout(() => { failedLoginAttempts[email] = 0; }, delay)\<close>.\<close>

definition setTimeout :: "world \<Rightarrow> string \<Rightarrow> nat \<Rightarrow> world" where
  "setTimeout w email delay = w\<lparr>timers := timers w @ [(clock w + delay, email)]\<rparr>"

text \<open>The body of the callback.\<close>

definition timerCallback :: "world \<Rightarrow> string \<Rightarrow> world" where
  "timerCallback w email = assign w email 0"

definition invoke :: "world \<Rightarrow> string \<Rightarrow> string \<Rightarrow> world" where
  "invoke w email password = w\<lparr>calls := calls w @ [(email, password)]\<rparr>"

subsection \<open>The handler\<close>

text \<open>
  \<open>Inl e\<close> is \<^verbatim>\<open>next(e)\<close>, \<open>Inr r\<close> is the response sent. The service is a parameter:
  \<^verbatim>\<open>authentication-service.js\<close> decides what it returns.
\<close>

definition login ::
  "(string \<Rightarrow> string \<Rightarrow> outcome) \<Rightarrow> world \<Rightarrow> string \<Rightarrow> string \<Rightarrow> (error + response) \<times> world"
where
  "login checkLoginCredentials w email password =
     (let loginAttempts = readAttempts w email in
      if loginAttempts \<ge> 5 then
        (Inl (errorResponder FORBIDDEN
               ''Too many failed login attempts. Try again later 30min.''), w)
      else
        (let w1 = invoke w email password in
         case checkLoginCredentials email password of
           Throws x \<Rightarrow> (Inl (Thrown x), w1)
         | Returns loginSuccess \<Rightarrow>
             if \<not> truthy loginSuccess then
               (Inl (errorResponder INVALID_CREDENTIALS ''Wrong email or password''),
                assign w1 email (loginAttempts + 1))
             else
               (let w2 = assign w1 email 0;
                    w3 = setTimeout w2 email loginAttemptResetTime
                in (Inr (Json 200 loginSuccess), w3))))"

subsection \<open>Time and sequences of events\<close>

text \<open>
  \<open>elapse d w\<close> lets \<open>d\<close> milliseconds pass: every callback that is due by then runs, in
  registration order (all delays are equal, so that is the order of the due times), and
  leaves the list.
\<close>

definition elapse :: "nat \<Rightarrow> world \<Rightarrow> world" where
  "elapse d w =
     (let t = clock w + d;
          due = filter (\<lambda>(at, email). at \<le> t) (timers w);
          rest = filter (\<lambda>(at, email). \<not> at \<le> t) (timers w)
      in foldl timerCallback (w\<lparr>clock := t, timers := rest\<rparr>) (map snd due))"

text \<open>
  A request carries what the service answers when it is asked; time passes between
  requests only.
\<close>

datatype event = Request string string outcome | Elapse nat

fun step :: "world \<Rightarrow> event \<Rightarrow> world" where
  "step w (Request email password answer) = snd (login (\<lambda>e p. answer) w email password)"
| "step w (Elapse d) = elapse d w"

definition run :: "world \<Rightarrow> event list \<Rightarrow> world" where
  "run w evs = foldl step w evs"

text \<open>The errors the caller sees.\<close>

definition LockedOut :: error where
  "LockedOut = errorResponder FORBIDDEN ''Too many failed login attempts. Try again later 30min.''"

definition InvalidCredentials :: error where
  "InvalidCredentials = errorResponder INVALID_CREDENTIALS ''Wrong email or password''"

subsection \<open>The credential service, from its contract\<close>

text \<open>
  Modelled from the spec: the credential record that \<^verbatim>\<open>authentication-service.js\<close>
  (required by the controller, not among the sources) resolves: an identifier, an opaque
  password hash, and the non-secret attributes of the user.
\<close>

record credentialRecord =
  cred_identifier :: string
  cred_hash :: string
  cred_attributes :: "(string \<times> js_value) list"

text \<open>
  Modelled from the spec: the public profile returned on success, the identifier and the
  non-secret attributes, never the hash.
\<close>

definition publicProfile :: "credentialRecord \<Rightarrow> js_value" where
  "publicProfile r = Obj ((''email'', Str (cred_identifier r)) # cred_attributes r)"

text \<open>
  Modelled from the spec: \<^verbatim>\<open>checkLoginCredentials\<close> of \<^verbatim>\<open>authentication-service.js\<close>,
  which is not among the sources. The contract: the credential record is resolved by
  \<open>lookupByIdentifier\<close>; if it is absent, or if \<open>verify\<close> rejects the plaintext against
  the stored hash, the check rejects; otherwise it yields the public profile. Both
  collaborators are parameters.
\<close>

definition checkLoginCredentials_spec ::
  "(string \<Rightarrow> credentialRecord option) \<Rightarrow> (string \<Rightarrow> string \<Rightarrow> bool) \<Rightarrow>
   string \<Rightarrow> string \<Rightarrow> outcome"
where
  "checkLoginCredentials_spec lookupByIdentifier verify email password =
     (case lookupByIdentifier email of
        None \<Rightarrow> Returns Null
      | Some r \<Rightarrow>
          if verify password (cred_hash r) then Returns (publicProfile r)
          else Returns Null)"

subsection \<open>Concrete services, stores and event sequences\<close>

text \<open>Stand-ins for the service: one that rejects, one that accepts, one that throws.\<close>

definition rejecting :: "string \<Rightarrow> string \<Rightarrow> outcome" where
  "rejecting email password = Returns Null"

definition accepting :: "string \<Rightarrow> string \<Rightarrow> outcome" where
  "accepting email password = Returns (Obj [(''email'', Str email)])"

definition unavailable :: "string \<Rightarrow> string \<Rightarrow> outcome" where
  "unavailable email password = Throws ''StorageUnavailable''"

definition exampleStore :: "string \<Rightarrow> credentialRecord option" where
  "exampleStore =
     [''a@x.com'' \<mapsto> \<lparr>cred_identifier = ''a@x.com'', cred_hash = ''h(secret)'',
                      cred_attributes = [(''name'', Str ''Alice'')]\<rparr>]"

definition exampleVerify :: "string \<Rightarrow> string \<Rightarrow> bool" where
  "exampleVerify plaintext storedHash = (storedHash = ''h('' @ plaintext @ '')'')"

definition wrongGuess :: event where
  "wrongGuess = Request ''a@x.com'' ''guess'' (Returns Null)"

definition rightGuess :: event where
  "rightGuess = Request ''a@x.com'' ''secret'' (Returns (Obj [(''email'', Str ''a@x.com'')]))"

text \<open>One successful login, then 30 minutes.\<close>

definition successThenWait :: "event list" where
  "successThenWait = [rightGuess, Elapse 1800000]"

definition twoFailures :: "event list" where
  "twoFailures = [wrongGuess, wrongGuess]"

definition fiveFailures :: "event list" where
  "fiveFailures = [wrongGuess, wrongGuess, wrongGuess, wrongGuess, wrongGuess]"

text \<open>
  A successful login, 25 minutes, five rejected logins; then the remaining 5 minutes of
  the timer that the successful login registered.
\<close>

definition lockedAfterSuccess :: "event list" where
  "lockedAfterSuccess = [rightGuess, Elapse 1500000] @ fiveFailures"

definition lateUnlock :: "event list" where
  "lateUnlock = lockedAfterSuccess @ [Elapse 300000]"

section \<open>Properties\<close>

subsection \<open>Auxiliary facts\<close>

lemmas login_defs = login_def Let_def invoke_def assign_def setTimeout_def

lemma run_twoFailures:
  "run emptyWorld twoFailures =
     \<lparr>failedLoginAttempts = [''a@x.com'' \<mapsto> 2], timers = [], clock = 0,
      calls = [(''a@x.com'', ''guess''), (''a@x.com'', ''guess'')],
      writes = [(''a@x.com'', 1), (''a@x.com'', 2)]\<rparr>"
  by (simp add: run_def twoFailures_def wrongGuess_def emptyWorld_def login_defs readAttempts_def)

lemma run_fiveFailures:
  "run emptyWorld fiveFailures =
     \<lparr>failedLoginAttempts = [''a@x.com'' \<mapsto> 5], timers = [], clock = 0,
      calls = [(''a@x.com'', ''guess''), (''a@x.com'', ''guess''), (''a@x.com'', ''guess''),
               (''a@x.com'', ''guess''), (''a@x.com'', ''guess'')],
      writes = [(''a@x.com'', 1), (''a@x.com'', 2), (''a@x.com'', 3), (''a@x.com'', 4),
                (''a@x.com'', 5)]\<rparr>"
  by (simp add: run_def fiveFailures_def wrongGuess_def emptyWorld_def login_defs readAttempts_def)

lemma run_lockedAfterSuccess:
  "run emptyWorld lockedAfterSuccess =
     \<lparr>failedLoginAttempts = [''a@x.com'' \<mapsto> 5], timers = [(1800000, ''a@x.com'')],
      clock = 1500000,
      calls = [(''a@x.com'', ''secret''), (''a@x.com'', ''guess''), (''a@x.com'', ''guess''),
               (''a@x.com'', ''guess''), (''a@x.com'', ''guess''), (''a@x.com'', ''guess'')],
      writes = [(''a@x.com'', 0), (''a@x.com'', 1), (''a@x.com'', 2), (''a@x.com'', 3),
                (''a@x.com'', 4), (''a@x.com'', 5)]\<rparr>"
  by (simp add: run_def lockedAfterSuccess_def fiveFailures_def wrongGuess_def rightGuess_def
      emptyWorld_def login_defs readAttempts_def elapse_def loginAttemptResetTime_def
      timerCallback_def)

lemma run_lateUnlock:
  "run emptyWorld lateUnlock =
     \<lparr>failedLoginAttempts = [''a@x.com'' \<mapsto> 0], timers = [],
      clock = 1800000,
      calls = [(''a@x.com'', ''secret''), (''a@x.com'', ''guess''), (''a@x.com'', ''guess''),
               (''a@x.com'', ''guess''), (''a@x.com'', ''guess''), (''a@x.com'', ''guess'')],
      writes = [(''a@x.com'', 0), (''a@x.com'', 1), (''a@x.com'', 2), (''a@x.com'', 3),
                (''a@x.com'', 4), (''a@x.com'', 5), (''a@x.com'', 0)]\<rparr>"
proof -
  have "run emptyWorld lateUnlock = elapse 300000 (run emptyWorld lockedAfterSuccess)"
    by (simp add: lateUnlock_def run_def)
  then show ?thesis
    by (simp add: run_lockedAfterSuccess elapse_def timerCallback_def assign_def)
qed

lemma elapse_no_timers: "timers w = [] \<Longrightarrow> elapse d w = w\<lparr>clock := clock w + d\<rparr>"
  by (simp add: elapse_def)

text \<open>The bounds on the stored counts are kept by every assignment the code makes.\<close>

lemma assign_bounds:
  assumes "\<forall>e n. failedLoginAttempts w e = Some n \<longrightarrow> 0 \<le> n \<and> n \<le> 5"
    and "0 \<le> v" and "v \<le> 5"
  shows "\<forall>e n. failedLoginAttempts (assign w k v) e = Some n \<longrightarrow> 0 \<le> n \<and> n \<le> 5"
  using assms by (simp add: assign_def)

lemma readAttempts_bounds:
  assumes "\<forall>e n. failedLoginAttempts w e = Some n \<longrightarrow> 0 \<le> n \<and> n \<le> 5"
  shows "0 \<le> readAttempts w email \<and> readAttempts w email \<le> 5"
  using assms by (simp add: readAttempts_def split: option.split)

lemma login_bounds:
  assumes inv: "\<forall>e n. failedLoginAttempts w e = Some n \<longrightarrow> 0 \<le> n \<and> n \<le> 5"
  shows "\<forall>e n. failedLoginAttempts (snd (login svc w email password)) e = Some n \<longrightarrow>
           0 \<le> n \<and> n \<le> 5"
proof -
  from readAttempts_bounds [OF inv] have r: "0 \<le> readAttempts w email" ..
  show ?thesis
    using inv r by (simp add: login_defs split: outcome.split)
qed

lemma callbacks_bounds:
  assumes "\<forall>e n. failedLoginAttempts w e = Some n \<longrightarrow> 0 \<le> n \<and> n \<le> 5"
  shows "\<forall>e n. failedLoginAttempts (foldl timerCallback w ks) e = Some n \<longrightarrow> 0 \<le> n \<and> n \<le> 5"
  using assms
proof (induction ks arbitrary: w)
  case Nil
  then show ?case by simp
next
  case (Cons k ks)
  have "\<forall>e n. failedLoginAttempts (timerCallback w k) e = Some n \<longrightarrow> 0 \<le> n \<and> n \<le> 5"
    unfolding timerCallback_def by (rule assign_bounds [OF Cons.prems]) simp_all
  from Cons.IH [OF this] show ?case by simp
qed

lemma elapse_bounds:
  assumes "\<forall>e n. failedLoginAttempts w e = Some n \<longrightarrow> 0 \<le> n \<and> n \<le> 5"
  shows "\<forall>e n. failedLoginAttempts (elapse d w) e = Some n \<longrightarrow> 0 \<le> n \<and> n \<le> 5"
  unfolding elapse_def Let_def
  by (rule callbacks_bounds) (use assms in simp)

lemma step_bounds:
  assumes "\<forall>e n. failedLoginAttempts w e = Some n \<longrightarrow> 0 \<le> n \<and> n \<le> 5"
  shows "\<forall>e n. failedLoginAttempts (step w ev) e = Some n \<longrightarrow> 0 \<le> n \<and> n \<le> 5"
proof (cases ev)
  case (Request email password answer)
  then show ?thesis using login_bounds [OF assms] by simp
next
  case (Elapse d)
  then show ?thesis using elapse_bounds [OF assms] by simp
qed

lemma run_bounds:
  assumes "\<forall>e n. failedLoginAttempts w e = Some n \<longrightarrow> 0 \<le> n \<and> n \<le> 5"
  shows "\<forall>e n. failedLoginAttempts (run w evs) e = Some n \<longrightarrow> 0 \<le> n \<and> n \<le> 5"
  using assms unfolding run_def
proof (induction evs arbitrary: w)
  case Nil
  then show ?case by simp
next
  case (Cons ev evs)
  from Cons.IH [OF step_bounds [OF Cons.prems]] show ?case by simp
qed

subsection \<open>The lockout gate\<close>

text \<open>
  C1. When the count read for the identifier is at least 5, login fails with LockedOut and
  does not call checkLoginCredentials. When it is below 5, login calls
  checkLoginCredentials, once, with the identifier and password it was given.
\<close>

theorem C1_lockout_gate:
  "(5 \<le> readAttempts w email \<longrightarrow>
      fst (login svc w email password) = Inl LockedOut \<and>
      calls (snd (login svc w email password)) = calls w) \<and>
   (readAttempts w email < 5 \<longrightarrow>
      calls (snd (login svc w email password)) = calls w @ [(email, password)])"
  by (simp add: login_defs LockedOut_def split: outcome.split)

text \<open>
  C1 at two inputs: after five rejected logins the sixth is refused and the service has
  still been called five times; in the empty state the service is called.
\<close>

theorem C1_lockout_gate_witness:
  "5 \<le> readAttempts (run emptyWorld fiveFailures) ''a@x.com'' \<and>
   fst (login accepting (run emptyWorld fiveFailures) ''a@x.com'' ''secret'') = Inl LockedOut \<and>
   calls (snd (login accepting (run emptyWorld fiveFailures) ''a@x.com'' ''secret'')) =
     calls (run emptyWorld fiveFailures) \<and>
   readAttempts emptyWorld ''a@x.com'' < 5 \<and>
   calls (snd (login accepting emptyWorld ''a@x.com'' ''secret'')) =
     calls emptyWorld @ [(''a@x.com'', ''secret'')]"
proof -
  have h1: "5 \<le> readAttempts (run emptyWorld fiveFailures) ''a@x.com''"
    by (simp add: run_fiveFailures readAttempts_def)
  have h2: "readAttempts emptyWorld ''a@x.com'' < 5"
    by (simp add: readAttempts_def emptyWorld_def)
  from C1_lockout_gate [of "run emptyWorld fiveFailures" "''a@x.com''" accepting "''secret''"]
       C1_lockout_gate [of emptyWorld "''a@x.com''" accepting "''secret''"] h1 h2
  show ?thesis by blast
qed

subsection \<open>Outcomes of the credential check\<close>

text \<open>
  C3. When the lockout check does not fire and the credential check rejects (it returns a
  falsy value), login fails with InvalidCredentials, and the count stored for the
  identifier afterwards is the count read before the call plus 1.
\<close>

theorem C3_rejection_counts:
  assumes "readAttempts w email < 5"
    and "svc email password = Returns v"
    and "\<not> truthy v"
  shows "fst (login svc w email password) = Inl InvalidCredentials \<and>
         failedLoginAttempts (snd (login svc w email password)) email =
           Some (readAttempts w email + 1) \<and>
         readAttempts (snd (login svc w email password)) email = readAttempts w email + 1"
  using assms by (simp add: login_defs InvalidCredentials_def readAttempts_def)

text \<open>C3 after two rejected logins: the third raises the count from 2 to 3.\<close>

theorem C3_rejection_counts_witness:
  "readAttempts (run emptyWorld twoFailures) ''a@x.com'' < 5 \<and>
   rejecting ''a@x.com'' ''guess'' = Returns Null \<and>
   \<not> truthy Null \<and>
   fst (login rejecting (run emptyWorld twoFailures) ''a@x.com'' ''guess'') =
     Inl InvalidCredentials \<and>
   readAttempts (run emptyWorld twoFailures) ''a@x.com'' = 2 \<and>
   failedLoginAttempts (snd (login rejecting (run emptyWorld twoFailures) ''a@x.com'' ''guess''))
     ''a@x.com'' = Some 3"
proof -
  have r: "readAttempts (run emptyWorld twoFailures) ''a@x.com'' = 2"
    by (simp add: run_twoFailures readAttempts_def)
  have h1: "readAttempts (run emptyWorld twoFailures) ''a@x.com'' < 5"
    by (simp add: r)
  have h2: "rejecting ''a@x.com'' ''guess'' = Returns Null"
    by (simp add: rejecting_def)
  have h3: "\<not> truthy Null"
    by simp
  from C3_rejection_counts [where svc = rejecting and password = "''guess''", OF h1 h2 h3]
       r h1 h2 h3
  show ?thesis by simp
qed

text \<open>
  C4. When the lockout check does not fire and the credential check succeeds (it returns a
  truthy value), login answers 200 with that value, and the count stored for the
  identifier afterwards is 0, whatever it was.
\<close>

theorem C4_success_resets:
  assumes "readAttempts w email < 5"
    and "svc email password = Returns v"
    and "truthy v"
  shows "fst (login svc w email password) = Inr (Json 200 v) \<and>
         failedLoginAttempts (snd (login svc w email password)) email = Some 0 \<and>
         readAttempts (snd (login svc w email password)) email = 0"
  using assms by (simp add: login_defs readAttempts_def)

text \<open>C4 after two rejected logins: a successful login takes the count from 2 to 0.\<close>

theorem C4_success_resets_witness:
  "readAttempts (run emptyWorld twoFailures) ''a@x.com'' < 5 \<and>
   accepting ''a@x.com'' ''secret'' = Returns (Obj [(''email'', Str ''a@x.com'')]) \<and>
   truthy (Obj [(''email'', Str ''a@x.com'')]) \<and>
   readAttempts (run emptyWorld twoFailures) ''a@x.com'' = 2 \<and>
   fst (login accepting (run emptyWorld twoFailures) ''a@x.com'' ''secret'') =
     Inr (Json 200 (Obj [(''email'', Str ''a@x.com'')])) \<and>
   failedLoginAttempts (snd (login accepting (run emptyWorld twoFailures) ''a@x.com'' ''secret''))
     ''a@x.com'' = Some 0"
proof -
  have r: "readAttempts (run emptyWorld twoFailures) ''a@x.com'' = 2"
    by (simp add: run_twoFailures readAttempts_def)
  have h1: "readAttempts (run emptyWorld twoFailures) ''a@x.com'' < 5"
    by (simp add: r)
  have h2: "accepting ''a@x.com'' ''secret'' = Returns (Obj [(''email'', Str ''a@x.com'')])"
    by (simp add: accepting_def)
  have h3: "truthy (Obj [(''email'', Str ''a@x.com'')])"
    by simp
  from C4_success_resets [where svc = accepting and password = "''secret''", OF h1 h2 h3]
       r h1 h2 h3
  show ?thesis by simp
qed

text \<open>
  C5. A login that fails with LockedOut leaves the whole state as it was: no count is
  written, no timer is registered, the service is not called.
\<close>

theorem C5_lockout_no_change:
  "fst (login svc w email password) = Inl LockedOut \<Longrightarrow> snd (login svc w email password) = w"
  by (simp add: login_defs LockedOut_def split: if_splits outcome.splits)

text \<open>C5 at the sixth login after five rejected ones.\<close>

theorem C5_lockout_no_change_witness:
  "fst (login accepting (run emptyWorld fiveFailures) ''a@x.com'' ''secret'') = Inl LockedOut \<and>
   snd (login accepting (run emptyWorld fiveFailures) ''a@x.com'' ''secret'') =
     run emptyWorld fiveFailures"
proof -
  have h: "fst (login accepting (run emptyWorld fiveFailures) ''a@x.com'' ''secret'') =
           Inl LockedOut"
    by (simp add: run_fiveFailures login_def readAttempts_def LockedOut_def)
  from C5_lockout_no_change [OF h] h show ?thesis by simp
qed

text \<open>
  C6. When the awaited credential check throws, login writes no count and registers no
  timer, and, unless the lockout check fired first, hands the thrown error to the caller.
\<close>

theorem C6_lookup_failure:
  assumes "svc email password = Throws x"
  shows "failedLoginAttempts (snd (login svc w email password)) = failedLoginAttempts w \<and>
         writes (snd (login svc w email password)) = writes w \<and>
         timers (snd (login svc w email password)) = timers w \<and>
         (readAttempts w email < 5 \<longrightarrow> fst (login svc w email password) = Inl (Thrown x))"
  using assms by (simp add: login_defs)

text \<open>C6 after two rejected logins, with a store that is unavailable.\<close>

theorem C6_lookup_failure_witness:
  "unavailable ''a@x.com'' ''secret'' = Throws ''StorageUnavailable'' \<and>
   readAttempts (run emptyWorld twoFailures) ''a@x.com'' < 5 \<and>
   fst (login unavailable (run emptyWorld twoFailures) ''a@x.com'' ''secret'') =
     Inl (Thrown ''StorageUnavailable'') \<and>
   failedLoginAttempts (snd (login unavailable (run emptyWorld twoFailures) ''a@x.com'' ''secret''))
     = failedLoginAttempts (run emptyWorld twoFailures) \<and>
   writes (snd (login unavailable (run emptyWorld twoFailures) ''a@x.com'' ''secret''))
     = writes (run emptyWorld twoFailures)"
proof -
  have h1: "unavailable ''a@x.com'' ''secret'' = Throws ''StorageUnavailable''"
    by (simp add: unavailable_def)
  have h2: "readAttempts (run emptyWorld twoFailures) ''a@x.com'' < 5"
    by (simp add: run_twoFailures readAttempts_def)
  from C6_lookup_failure [where svc = unavailable and email = "''a@x.com''"
        and password = "''secret''" and w = "run emptyWorld twoFailures", OF h1] h1 h2
  show ?thesis by blast
qed

text \<open>
  C7. With the credential check of the contract, a login for an identifier that has no
  credential record and a login for a known identifier with a wrong password, neither
  locked out, hand the caller the same error, InvalidCredentials.
\<close>

theorem C7_same_rejection:
  assumes "lookupByIdentifier unknown = None"
    and "lookupByIdentifier known = Some r"
    and "\<not> verify wrong (cred_hash r)"
    and "readAttempts w unknown < 5"
    and "readAttempts w' known < 5"
  shows "fst (login (checkLoginCredentials_spec lookupByIdentifier verify) w unknown password) =
         fst (login (checkLoginCredentials_spec lookupByIdentifier verify) w' known wrong) \<and>
         fst (login (checkLoginCredentials_spec lookupByIdentifier verify) w unknown password) =
         Inl InvalidCredentials"
  using assms by (simp add: login_defs checkLoginCredentials_spec_def InvalidCredentials_def)

text \<open>C7 with a store that knows one user: an unknown address against a wrong password.\<close>

theorem C7_same_rejection_witness:
  "exampleStore ''b@x.com'' = None \<and>
   exampleStore ''a@x.com'' =
     Some \<lparr>cred_identifier = ''a@x.com'', cred_hash = ''h(secret)'',
           cred_attributes = [(''name'', Str ''Alice'')]\<rparr> \<and>
   \<not> exampleVerify ''guess'' ''h(secret)'' \<and>
   readAttempts emptyWorld ''b@x.com'' < 5 \<and>
   readAttempts emptyWorld ''a@x.com'' < 5 \<and>
   fst (login (checkLoginCredentials_spec exampleStore exampleVerify) emptyWorld
          ''b@x.com'' ''guess'') =
   fst (login (checkLoginCredentials_spec exampleStore exampleVerify) emptyWorld
          ''a@x.com'' ''guess'') \<and>
   fst (login (checkLoginCredentials_spec exampleStore exampleVerify) emptyWorld
          ''b@x.com'' ''guess'') =
   Inl InvalidCredentials"
proof -
  have h1: "exampleStore ''b@x.com'' = None"
    by (simp add: exampleStore_def)
  have h2: "exampleStore ''a@x.com'' =
     Some \<lparr>cred_identifier = ''a@x.com'', cred_hash = ''h(secret)'',
           cred_attributes = [(''name'', Str ''Alice'')]\<rparr>"
    by (simp add: exampleStore_def)
  have h3: "\<not> exampleVerify ''guess''
     (cred_hash \<lparr>cred_identifier = ''a@x.com'', cred_hash = ''h(secret)'',
           cred_attributes = [(''name'', Str ''Alice'')]\<rparr>)"
    by (simp add: exampleVerify_def)
  have h4: "readAttempts emptyWorld ''b@x.com'' < 5"
    by (simp add: readAttempts_def emptyWorld_def)
  have h5: "readAttempts emptyWorld ''a@x.com'' < 5"
    by (simp add: readAttempts_def emptyWorld_def)
  have h3': "\<not> exampleVerify ''guess'' ''h(secret)''"
    using h3 by simp
  from C7_same_rejection [where lookupByIdentifier = exampleStore and verify = exampleVerify
        and password = "''guess''", OF h1 h2 h3 h4 h5] h1 h2 h3' h4 h5
  show ?thesis by blast
qed

subsection \<open>Writes per call\<close>

text \<open>
  C8, as stated, at two inputs. A login whose credential check throws is not
  short-circuited by the lockout check (the caller gets the thrown error) and writes no
  count at all, where the statement asks for exactly one write. And one successful login
  from the empty state, followed by 30 minutes, leaves two writes behind: the reset made
  by the call and the one made by the callback it registered.
\<close>

theorem C8_counterexample:
  "fst (login unavailable emptyWorld ''a@x.com'' ''secret'') = Inl (Thrown ''StorageUnavailable'') \<and>
   fst (login unavailable emptyWorld ''a@x.com'' ''secret'') \<noteq> Inl LockedOut \<and>
   length (writes (snd (login unavailable emptyWorld ''a@x.com'' ''secret''))) =
     length (writes emptyWorld) \<and>
   length (writes (snd (login unavailable emptyWorld ''a@x.com'' ''secret''))) \<noteq>
     length (writes emptyWorld) + 1 \<and>
   successThenWait = [rightGuess, Elapse 1800000] \<and>
   writes (run emptyWorld successThenWait) = [(''a@x.com'', 0), (''a@x.com'', 0)]"
  by (simp add: login_defs unavailable_def emptyWorld_def readAttempts_def LockedOut_def
      successThenWait_def rightGuess_def run_def elapse_def timerCallback_def
      loginAttemptResetTime_def)

text \<open>
  C8, amended. A login whose credential check returns makes exactly one write to
  \<open>failedLoginAttempts\<close> before it answers: the count read plus 1 for the identifier when
  the check rejects, 0 for the identifier when it succeeds. A login short-circuited by the
  lockout check and a login whose credential check throws make none.
\<close>

theorem C8_writes_per_call:
  "writes (snd (login svc w email password)) =
     (if 5 \<le> readAttempts w email then writes w
      else case svc email password of
             Throws x \<Rightarrow> writes w
           | Returns v \<Rightarrow>
               if truthy v then writes w @ [(email, 0)]
               else writes w @ [(email, readAttempts w email + 1)])"
  by (simp add: login_defs split: outcome.split)

subsection \<open>Bounds on the stored counts\<close>

text \<open>
  C9. After any sequence of logins and elapsed times from the empty state, every stored
  count is an integer between 0 and 5, and so is the count read for any identifier.
\<close>

theorem C9_count_bounds:
  "(failedLoginAttempts (run emptyWorld evs) email = Some n \<longrightarrow> 0 \<le> n \<and> n \<le> 5) \<and>
   0 \<le> readAttempts (run emptyWorld evs) email \<and> readAttempts (run emptyWorld evs) email \<le> 5"
proof -
  have "\<forall>e n. failedLoginAttempts emptyWorld e = Some n \<longrightarrow> 0 \<le> n \<and> n \<le> 5"
    by (simp add: emptyWorld_def)
  from run_bounds [OF this] readAttempts_bounds [OF run_bounds [OF this]]
  show ?thesis by blast
qed

text \<open>C9 after five rejected logins: the stored count is 5, the upper bound.\<close>

theorem C9_count_bounds_witness:
  "failedLoginAttempts (run emptyWorld fiveFailures) ''a@x.com'' = Some 5 \<and>
   (0::int) \<le> 5 \<and> (5::int) \<le> 5 \<and>
   0 \<le> readAttempts (run emptyWorld fiveFailures) ''a@x.com'' \<and>
   readAttempts (run emptyWorld fiveFailures) ''a@x.com'' \<le> 5"
proof -
  have h: "failedLoginAttempts (run emptyWorld fiveFailures) ''a@x.com'' = Some 5"
    by (simp add: run_fiveFailures)
  from C9_count_bounds [of fiveFailures "''a@x.com''" 5] h show ?thesis by simp
qed

subsection \<open>The reset timer\<close>

text \<open>
  C2. The reset after 30 minutes. The handler registers its timer on the success path
  only, so a rejected login schedules nothing: after five rejected logins from the empty
  state no timer is pending, and however much time \<open>d\<close> passes (30 minutes included) the
  count read is still 5 and a login with the right password is refused.
\<close>

theorem C2_no_reset_after_failures:
  "readAttempts (run emptyWorld (fiveFailures @ [Elapse d])) ''a@x.com'' = 5 \<and>
   timers (run emptyWorld (fiveFailures @ [Elapse d])) = [] \<and>
   fst (login accepting (run emptyWorld (fiveFailures @ [Elapse d])) ''a@x.com'' ''secret'') =
     Inl LockedOut"
proof -
  have "run emptyWorld (fiveFailures @ [Elapse d]) = elapse d (run emptyWorld fiveFailures)"
    by (simp add: run_def)
  also have "\<dots> = (run emptyWorld fiveFailures)\<lparr>clock := d\<rparr>"
    by (simp add: run_fiveFailures elapse_no_timers)
  finally have w:
    "run emptyWorld (fiveFailures @ [Elapse d]) = (run emptyWorld fiveFailures)\<lparr>clock := d\<rparr>" .
  show ?thesis
    unfolding w by (simp add: run_fiveFailures readAttempts_def login_def LockedOut_def)
qed

text \<open>
  C10. A login adds a timer exactly when it succeeds, due 30 minutes later, and the
  callback stores 0 for its identifier whatever is stored. So: a successful login, 25
  minutes, five rejected logins (the identifier is locked out, the timer of the successful
  login is pending), 5 more minutes: the count read is 0 and a login is accepted, although
  no login succeeded after the five rejected ones.
\<close>

theorem C10_success_timer_unlocks:
  "timers (snd (login svc w email password)) =
     (case fst (login svc w email password) of
        Inl e \<Rightarrow> timers w
      | Inr r \<Rightarrow> timers w @ [(clock w + loginAttemptResetTime, email)]) \<and>
   loginAttemptResetTime = 1800000 \<and>
   failedLoginAttempts (timerCallback w email) email = Some 0 \<and>
   lockedAfterSuccess = [rightGuess, Elapse 1500000] @ fiveFailures \<and>
   readAttempts (run emptyWorld lockedAfterSuccess) ''a@x.com'' = 5 \<and>
   timers (run emptyWorld lockedAfterSuccess) = [(1800000, ''a@x.com'')] \<and>
   fst (login accepting (run emptyWorld lockedAfterSuccess) ''a@x.com'' ''secret'') =
     Inl LockedOut \<and>
   lateUnlock = lockedAfterSuccess @ [Elapse 300000] \<and>
   readAttempts (run emptyWorld lateUnlock) ''a@x.com'' = 0 \<and>
   fst (login accepting (run emptyWorld lateUnlock) ''a@x.com'' ''secret'') =
     Inr (Json 200 (Obj [(''email'', Str ''a@x.com'')]))"
proof -
  have a: "timers (snd (login svc w email password)) =
     (case fst (login svc w email password) of
        Inl e \<Rightarrow> timers w
      | Inr r \<Rightarrow> timers w @ [(clock w + loginAttemptResetTime, email)])"
    by (simp add: login_defs split: outcome.split)
  have b: "failedLoginAttempts (timerCallback w email) email = Some 0"
    by (simp add: timerCallback_def assign_def)
  have c: "readAttempts (run emptyWorld lockedAfterSuccess) ''a@x.com'' = 5"
    by (simp add: run_lockedAfterSuccess readAttempts_def)
  have c': "timers (run emptyWorld lockedAfterSuccess) = [(1800000, ''a@x.com'')]"
    by (simp add: run_lockedAfterSuccess)
  have d: "fst (login accepting (run emptyWorld lockedAfterSuccess) ''a@x.com'' ''secret'') =
     Inl LockedOut"
    by (simp add: run_lockedAfterSuccess readAttempts_def login_def LockedOut_def)
  have e: "readAttempts (run emptyWorld lateUnlock) ''a@x.com'' = 0"
    by (simp add: run_lateUnlock readAttempts_def)
  have f: "fst (login accepting (run emptyWorld lateUnlock) ''a@x.com'' ''secret'') =
     Inr (Json 200 (Obj [(''email'', Str ''a@x.com'')]))"
    by (simp add: run_lateUnlock readAttempts_def login_defs accepting_def)
  from a b c c' d e f show ?thesis
    by (simp add: lateUnlock_def lockedAfterSuccess_def loginAttemptResetTime_def)
qed

end
